theory Spec2Isabelle
  imports Complex_Main
begin

section \<open>Values, errors and effects\<close>

text \<open>
  The two routines \<open>precess\<close> (precess.py) and \<open>ugdoppler\<close> (ugdoppler.py) work on
  Python floats and one-dimensional numpy arrays. A float is modelled as a real number,
  so rounding and overflow are outside the model; the only place where the routines can
  manufacture a not-a-number from finite input is \<open>np.arcsin\<close>, so the values that flow
  out of it carry an explicit \<open>NaN\<close>. Exceptions are values of type \<open>error\<close>.
\<close>

datatype error = TypeError | ValueError | IndexError

datatype 'a val = Scalar 'a | Vec "'a list"

datatype fl = Fin real | NaN

type_synonym vec3 = "real \<times> real \<times> real"

type_synonym mat3 = "vec3 \<times> vec3 \<times> vec3"

fun fl1 :: "(real \<Rightarrow> real) \<Rightarrow> fl \<Rightarrow> fl" where
  "fl1 f (Fin x) = Fin (f x)"
| "fl1 f NaN = NaN"

fun fl2 :: "(real \<Rightarrow> real \<Rightarrow> real) \<Rightarrow> fl \<Rightarrow> fl \<Rightarrow> fl" where
  "fl2 f (Fin x) (Fin y) = Fin (f x y)"
| "fl2 f NaN b = NaN"
| "fl2 f a NaN = NaN"

definition bind_e :: "error + 'a \<Rightarrow> ('a \<Rightarrow> error + 'b) \<Rightarrow> error + 'b" where
  "bind_e m f = (case m of Inl e \<Rightarrow> Inl e | Inr x \<Rightarrow> f x)"

subsection \<open>The numpy operations the routines use\<close>

text \<open>\<open>len(v)\<close>: a float has no length.\<close>

fun np_len :: "'a val \<Rightarrow> error + nat" where
  "np_len (Scalar x) = Inl TypeError"
| "np_len (Vec xs) = Inr (length xs)"

text \<open>A unary ufunc, or arithmetic with a Python scalar, acts on every element.\<close>

fun ufunc :: "('a \<Rightarrow> 'b) \<Rightarrow> 'a val \<Rightarrow> 'b val" where
  "ufunc f (Scalar x) = Scalar (f x)"
| "ufunc f (Vec xs) = Vec (map f xs)"

text \<open>
  A binary operation broadcasts: equal lengths pair up, a length-1 array is stretched,
  anything else is numpy's "operands could not be broadcast together".
\<close>

fun broadcast :: "('a \<Rightarrow> 'b \<Rightarrow> 'c) \<Rightarrow> 'a val \<Rightarrow> 'b val \<Rightarrow> error + 'c val" where
  "broadcast f (Scalar x) (Scalar y) = Inr (Scalar (f x y))"
| "broadcast f (Scalar x) (Vec ys) = Inr (Vec (map (f x) ys))"
| "broadcast f (Vec xs) (Scalar y) = Inr (Vec (map (\<lambda>x. f x y) xs))"
| "broadcast f (Vec xs) (Vec ys) =
     (if length xs = length ys then Inr (Vec (map2 f xs ys))
      else if length xs = 1 then Inr (Vec (map (f (hd xs)) ys))
      else if length ys = 1 then Inr (Vec (map (\<lambda>x. f x (hd ys)) xs))
      else Inl ValueError)"

text \<open>\<open>x[k, :] = v\<close> for a row of length \<open>n\<close>: \<open>v\<close> is broadcast into the row.\<close>

fun set_row :: "nat \<Rightarrow> 'a val \<Rightarrow> error + 'a list" where
  "set_row n (Scalar x) = Inr (replicate n x)"
| "set_row n (Vec xs) =
     (if length xs = n then Inr xs
      else if length xs = 1 then Inr (replicate n (hd xs))
      else Inl ValueError)"

text \<open>\<open>x[k] = v\<close> for a single cell: \<open>v\<close> is a scalar or an array of one element.\<close>

fun set_item :: "'a val \<Rightarrow> error + 'a" where
  "set_item (Scalar x) = Inr x"
| "set_item (Vec xs) = (case xs of [x] \<Rightarrow> Inr x | _ \<Rightarrow> Inl ValueError)"

text \<open>\<open>float(v)\<close>: only an array of exactly one element converts.\<close>

fun py_float :: "real val \<Rightarrow> error + real" where
  "py_float (Scalar x) = Inr x"
| "py_float (Vec xs) = (case xs of [x] \<Rightarrow> Inr x | _ \<Rightarrow> Inl TypeError)"

text \<open>\<open>v[i]\<close> for \<open>i\<close> from a \<open>range\<close>: a float is not subscriptable.\<close>

fun np_index :: "'a val \<Rightarrow> nat \<Rightarrow> error + 'a" where
  "np_index (Scalar x) i = Inl TypeError"
| "np_index (Vec xs) i = (if i < length xs then Inr (xs ! i) else Inl IndexError)"

text \<open>\<open>np.arctan2(y, x)\<close> on finite reals, with values in \<open>(-\<pi>, \<pi>]\<close>.\<close>

definition arctan2 :: "real \<Rightarrow> real \<Rightarrow> real" where
  "arctan2 y x =
     (if 0 < x then arctan (y / x)
      else if x < 0 then (if 0 \<le> y then arctan (y / x) + pi else arctan (y / x) - pi)
      else if 0 < y then pi / 2
      else if y < 0 then - (pi / 2)
      else 0)"

text \<open>\<open>np.arcsin\<close>: outside \<open>[-1, 1]\<close> the result is nan (with a warning, not an exception).\<close>

definition np_arcsin :: "real \<Rightarrow> fl" where
  "np_arcsin z = (if - 1 \<le> z \<and> z \<le> 1 then Fin (arcsin z) else NaN)"

definition dot3 :: "vec3 \<Rightarrow> vec3 \<Rightarrow> real" where
  "dot3 u v = (case u of (a, b, c) \<Rightarrow> case v of (x, y, z) \<Rightarrow> a * x + b * y + c * z)"

text \<open>\<open>np.dot(r, x)\<close> for a 3x3 matrix \<open>r\<close> and a 3xN array \<open>x\<close> given by its three rows.\<close>

definition np_dot :: "mat3 \<Rightarrow> real list \<times> real list \<times> real list
    \<Rightarrow> real list \<times> real list \<times> real list" where
  "np_dot r x =
     (case r of (r0, r1, r2) \<Rightarrow> case x of (x0, x1, x2) \<Rightarrow>
        (map (dot3 r0) (zip x0 (zip x1 x2)),
         map (dot3 r1) (zip x0 (zip x1 x2)),
         map (dot3 r2) (zip x0 (zip x1 x2))))"

section \<open>precess.py\<close>

definition deg_to_rad :: real where
  "deg_to_rad = pi / 180"

text \<open>
  The direction cosines of lines 92-96: three rows of length \<open>npts\<close>, each filled by a
  broadcasting row assignment.
\<close>

definition direction_cosines :: "nat \<Rightarrow> real val \<Rightarrow> real val
    \<Rightarrow> error + (real list \<times> real list \<times> real list)" where
  "direction_cosines npts ra_rad dec_rad =
     (let a = ufunc cos dec_rad in
      bind_e (bind_e (broadcast (*) a (ufunc cos ra_rad)) (set_row npts)) (\<lambda>x0.
      bind_e (bind_e (broadcast (*) a (ufunc sin ra_rad)) (set_row npts)) (\<lambda>x1.
      bind_e (set_row npts (ufunc sin dec_rad)) (\<lambda>x2.
      Inr (x0, x1, x2)))))"

text \<open>
  \<open>precess(ra, dec, equinox1, equinox2, FK4, radian)\<close>. The precession matrix comes from
  \<open>premat\<close> (premat.py), which is a parameter here. The result is the pair of arrays
  \<open>(ra, dec)\<close> of length \<open>npts\<close>.
\<close>

definition precess :: "(real \<Rightarrow> real \<Rightarrow> bool \<Rightarrow> mat3) \<Rightarrow> real val \<Rightarrow> real val
    \<Rightarrow> real \<Rightarrow> real \<Rightarrow> bool \<Rightarrow> bool \<Rightarrow> error + (real list \<times> fl list)" where
  "precess premat ra dec equinox1 equinox2 FK4 radian =
     (let npts = (case (np_len ra, np_len dec) of
                    (Inr n, Inr m) \<Rightarrow> min n m
                  | _ \<Rightarrow> 1) in
      bind_e (if \<not> radian
              then Inr (ufunc (\<lambda>v. v * deg_to_rad) ra, ufunc (\<lambda>v. v * deg_to_rad) dec)
              else bind_e (py_float ra) (\<lambda>r. bind_e (py_float dec) (\<lambda>d.
                     Inr (Scalar r, Scalar d)))) (\<lambda>(ra_rad, dec_rad).
      bind_e (direction_cosines npts ra_rad dec_rad) (\<lambda>x.
      let r = premat equinox1 equinox2 FK4 in
      case np_dot r x of (x2_0, x2_1, x2_2) \<Rightarrow>
      let ra_rad = map2 arctan2 x2_1 x2_0;
          dec_rad = map np_arcsin x2_2 in
      if \<not> radian
      then Inr (map (\<lambda>ra. ra + (if ra < 0 then 1 else 0) * 360)
                  (map (\<lambda>v. v / deg_to_rad) ra_rad),
                map (fl1 (\<lambda>v. v / deg_to_rad)) dec_rad)
      else Inr (ra_rad, dec_rad))))"

section \<open>ugdoppler.py\<close>

text \<open>
  What a call of \<open>ugdoppler\<close> does besides computing: it calls its collaborators, prints
  a notice and stops in the debugger. A computation is the list of these events in
  program order together with the exception raised or the value produced.
\<close>

datatype event =
    Call_baryvel real real
  | Call_precess real real real real
  | Call_getLST "real val" real
  | Print string
  | Breakpoint

type_synonym 'a io = "event list \<times> (error + 'a)"

definition io_pure :: "'a \<Rightarrow> 'a io" where
  "io_pure x = ([], Inr x)"

definition io_of :: "error + 'a \<Rightarrow> 'a io" where
  "io_of r = ([], r)"

definition io_emit :: "event \<Rightarrow> unit io" where
  "io_emit ev = ([ev], Inr ())"

definition io_bind :: "'a io \<Rightarrow> ('a \<Rightarrow> 'b io) \<Rightarrow> 'b io" where
  "io_bind m f =
     (case m of
        (es, Inl e) \<Rightarrow> (es, Inl e)
      | (es, Inr x) \<Rightarrow> (case f x of (es', r) \<Rightarrow> (es @ es', r)))"

definition dtor :: real where
  "dtor = pi / 180"

text \<open>Lines 76-79: the source direction cosines, three rows of length \<open>nin\<close>.\<close>

definition xxsource_rows :: "nat \<Rightarrow> real val \<Rightarrow> real val
    \<Rightarrow> error + (real list \<times> real list \<times> real list)" where
  "xxsource_rows nin rasource decsource =
     bind_e (bind_e (broadcast (*) (ufunc cos decsource) (ufunc cos rasource)) (set_row nin))
       (\<lambda>x0.
     bind_e (bind_e (broadcast (*) (ufunc cos decsource) (ufunc sin rasource)) (set_row nin))
       (\<lambda>x1.
     bind_e (set_row nin (ufunc sin decsource)) (\<lambda>x2.
     Inr (x0, x1, x2))))"

text \<open>
  \<open>xxsource[:, NR]\<close>. It is only read for \<open>NR\<close> in \<open>range(nin)\<close>, and the three rows
  have length \<open>nin\<close>, so the index is always in range.
\<close>

definition column :: "real list \<times> real list \<times> real list \<Rightarrow> nat \<Rightarrow> vec3" where
  "column xx NR = (case xx of (x0, x1, x2) \<Rightarrow> (x0 ! NR, x1 ! NR, x2 ! NR))"

text \<open>
  Lines 88-91: the loop over the samples. \<open>baryvel\<close> (baryvel.py) is a parameter; it
  returns the heliocentric and the barycentric velocity of the Earth. The two arrays
  \<open>pvorbit_helio\<close> and \<open>pvorbit_bary\<close> are filled index by index.
\<close>

fun orbit_loop :: "(real \<Rightarrow> real \<Rightarrow> vec3 \<times> vec3) \<Rightarrow> real val
    \<Rightarrow> real list \<times> real list \<times> real list \<Rightarrow> nat list \<Rightarrow> (real list \<times> real list) io" where
  "orbit_loop baryvel julday xxsource [] = io_pure ([], [])"
| "orbit_loop baryvel julday xxsource (NR # rest) =
     io_bind (io_of (np_index julday NR)) (\<lambda>jd.
     io_bind (io_emit (Call_baryvel jd 2000)) (\<lambda>_.
     case baryvel jd 2000 of (vvorbit, velb) \<Rightarrow>
     io_bind (orbit_loop baryvel julday xxsource rest) (\<lambda>(pvorbit_helio, pvorbit_bary).
     io_pure (dot3 vvorbit (column xxsource NR) # pvorbit_helio,
              dot3 velb (column xxsource NR) # pvorbit_bary))))"

text \<open>
  Lines 98-107: the velocity of the Sun with respect to the LSR. The apex is precessed
  by one call of \<open>precess\<close> in radian mode, which returns arrays of one element.
\<close>

definition vvlsr :: "(real \<Rightarrow> real \<Rightarrow> bool \<Rightarrow> mat3) \<Rightarrow> (fl \<times> fl \<times> fl) io" where
  "vvlsr premat =
     (let ralsr_rad = 2 * pi * 18 / 24;
          declsr_rad = dtor * 30 in
      io_bind (io_emit (Call_precess ralsr_rad declsr_rad 1900 2000)) (\<lambda>_.
      io_bind (io_of (precess premat (Scalar ralsr_rad) (Scalar declsr_rad) 1900 2000
                        False True)) (\<lambda>(ralsr_rad, declsr_rad).
      io_bind (io_of (bind_e (broadcast (fl2 (*)) (ufunc (fl1 cos) (Vec declsr_rad))
                        (ufunc (\<lambda>r. Fin (cos (pi + r))) (Vec ralsr_rad))) set_item)) (\<lambda>xxlsr0.
      io_bind (io_of (bind_e (broadcast (fl2 (*)) (ufunc (fl1 cos) (Vec declsr_rad))
                        (ufunc (\<lambda>r. Fin (sin r)) (Vec ralsr_rad))) set_item)) (\<lambda>xxlsr1.
      io_bind (io_of (set_item (ufunc (fl1 sin) (Vec declsr_rad)))) (\<lambda>xxlsr2.
      io_pure (fl1 ((*) 20) xxlsr0, fl1 ((*) 20) xxlsr1, fl1 ((*) 20) xxlsr2)))))))"

text \<open>Line 110: \<open>np.sum(vvlsr * xxsource[:, NR])\<close>.\<close>

definition fdot3 :: "fl \<times> fl \<times> fl \<Rightarrow> vec3 \<Rightarrow> fl" where
  "fdot3 u v =
     (case u of (a, b, c) \<Rightarrow> case v of (x, y, z) \<Rightarrow>
        fl2 (+) (fl2 (+) (fl2 (*) a (Fin x)) (fl2 (*) b (Fin y))) (fl2 (*) c (Fin z)))"

text \<open>
  Lines 117-125: the observer. \<open>nlat\<close> and \<open>wlong\<close> are \<open>None\<close> or a float; the test
  \<open>if nlat and wlong\<close> is Python truthiness, which \<open>None\<close> and \<open>0.0\<close> fail.
\<close>

definition truthy :: "real option \<Rightarrow> bool" where
  "truthy v = (case v of None \<Rightarrow> False | Some x \<Rightarrow> x \<noteq> 0)"

definition obspos :: "real option \<Rightarrow> real option \<Rightarrow> (real \<times> real) io" where
  "obspos nlat wlong =
     (let northlat = 37.8732;
          westlong = 122.2573;
          obspos_deg = (northlat, westlong) in
      case (nlat, wlong) of
        (Some la, Some lo) \<Rightarrow>
          if truthy nlat \<and> truthy wlong then io_pure (la, lo)
          else io_bind (io_emit (Print ''I am defaulting to Campbell Hall coordinates''))
                 (\<lambda>_. io_pure obspos_deg)
      | _ \<Rightarrow> io_bind (io_emit (Print ''I am defaulting to Campbell Hall coordinates''))
                 (\<lambda>_. io_pure obspos_deg))"

text \<open>
  Lines 128-134: the Earth spin. \<open>getLST\<close> (radiolab) is a parameter: by its contract
  a pure function from a Julian day and a longitude in degrees to the sidereal time in
  hours. The call hands it \<open>julday\<close> whole, and it answers for each Julian day.
\<close>

definition pvspin :: "(real \<Rightarrow> real \<Rightarrow> real) \<Rightarrow> real val \<Rightarrow> real val \<Rightarrow> real val
    \<Rightarrow> real \<times> real \<Rightarrow> (real val) io" where
  "pvspin getLST ra decsource julday obspos_deg =
     (let lat = fst obspos_deg in
      io_bind (io_emit (Call_getLST julday (- snd obspos_deg))) (\<lambda>_.
      let lst_mean = ufunc (\<lambda>jd. getLST jd (- snd obspos_deg)) julday in
      io_of (bind_e (broadcast (-) lst_mean ra) (\<lambda>ha.
             broadcast (*)
               (ufunc (\<lambda>c. - 0.465 * cos (dtor * lat) * c) (ufunc cos decsource))
               (ufunc (\<lambda>h. sin (h * 15 * dtor)) ha)))))"

text \<open>Lines 139-143: the four rows of \<open>vtotal\<close>, each of length \<open>nin\<close>.\<close>

definition vtotal_rows :: "nat \<Rightarrow> real val \<Rightarrow> real list \<Rightarrow> real list \<Rightarrow> fl list
    \<Rightarrow> error + fl list list" where
  "vtotal_rows nin spin pvorbit_helio pvorbit_bary pvlsr =
     bind_e (set_row nin (ufunc (\<lambda>s. Fin (- s)) spin)) (\<lambda>geo.
     bind_e (bind_e (broadcast (\<lambda>s h. Fin (- s - h)) spin (Vec pvorbit_helio))
               (set_row nin)) (\<lambda>helio.
     bind_e (bind_e (broadcast (\<lambda>s b. Fin (- s - b)) spin (Vec pvorbit_bary))
               (set_row nin)) (\<lambda>bary.
     bind_e (bind_e (bind_e (broadcast (\<lambda>s b. Fin (- s - b)) spin (Vec pvorbit_bary))
               (\<lambda>sb. broadcast (fl2 (-)) sb (Vec pvlsr))) (set_row nin)) (\<lambda>lsr.
     Inr [geo, helio, bary, lsr]))))"

text \<open>
  \<open>ugdoppler(ra, dec, julday, nlat, wlong, light)\<close>. The keyword parameters
  \<open>obspos_deg\<close> and \<open>lst_mean\<close> are rebound before they are read and are not returned,
  so they do not appear. The value returned is \<open>vtotal\<close> alone, once the debugger
  session of line 146 has been continued.
\<close>

definition ugdoppler :: "(real \<Rightarrow> real \<Rightarrow> vec3 \<times> vec3) \<Rightarrow> (real \<Rightarrow> real \<Rightarrow> bool \<Rightarrow> mat3)
    \<Rightarrow> (real \<Rightarrow> real \<Rightarrow> real) \<Rightarrow> real val \<Rightarrow> real val \<Rightarrow> real val
    \<Rightarrow> real option \<Rightarrow> real option \<Rightarrow> bool \<Rightarrow> (fl list list) io" where
  "ugdoppler baryvel premat getLST ra dec julday nlat wlong light =
     (let nin = (case np_len ra of Inr n \<Rightarrow> n | Inl _ \<Rightarrow> 1);
          rasource = ufunc (\<lambda>v. v * 15 * dtor) ra;
          decsource = ufunc (\<lambda>v. v * dtor) dec in
      io_bind (io_of (xxsource_rows nin rasource decsource)) (\<lambda>xxsource.
      io_bind (orbit_loop baryvel julday xxsource [0..<nin])
        (\<lambda>(pvorbit_helio, pvorbit_bary).
      io_bind (vvlsr premat) (\<lambda>vv.
      let pvlsr = map (\<lambda>NR. fdot3 vv (column xxsource NR)) [0..<nin] in
      io_bind (obspos nlat wlong) (\<lambda>obspos_deg.
      io_bind (pvspin getLST ra decsource julday obspos_deg) (\<lambda>spin.
      io_bind (io_of (vtotal_rows nin spin pvorbit_helio pvorbit_bary pvlsr)) (\<lambda>vtotal.
      io_bind (io_emit Breakpoint) (\<lambda>_.
      io_pure (if light then map (map (fl1 (\<lambda>v. v / 299792.458))) vtotal
               else vtotal)))))))))"

section \<open>Quantities named by the specification\<close>

text \<open>
  The per-sample contributions as section 4.3 of the specification words them, for one
  sample \<open>(ra, dec, jd)\<close>: the source direction cosines, the projections of the two
  Earth velocities and of the solar motion, and the Earth spin term. They are compared
  with what the vectorised code computes.
\<close>

definition source_direction :: "real \<Rightarrow> real \<Rightarrow> vec3" where
  "source_direction ra dec =
     (cos (dec * dtor) * cos (ra * 15 * dtor), cos (dec * dtor) * sin (ra * 15 * dtor),
      sin (dec * dtor))"

definition sample_pvorbit_helio :: "(real \<Rightarrow> real \<Rightarrow> vec3 \<times> vec3) \<Rightarrow> real \<Rightarrow> real \<Rightarrow> real \<Rightarrow> real" where
  "sample_pvorbit_helio baryvel ra dec jd = dot3 (fst (baryvel jd 2000)) (source_direction ra dec)"

definition sample_pvorbit_bary :: "(real \<Rightarrow> real \<Rightarrow> vec3 \<times> vec3) \<Rightarrow> real \<Rightarrow> real \<Rightarrow> real \<Rightarrow> real" where
  "sample_pvorbit_bary baryvel ra dec jd = dot3 (snd (baryvel jd 2000)) (source_direction ra dec)"

definition sample_pvlsr :: "fl \<times> fl \<times> fl \<Rightarrow> real \<Rightarrow> real \<Rightarrow> fl" where
  "sample_pvlsr vv ra dec = fdot3 vv (source_direction ra dec)"

definition sample_pvspin :: "(real \<Rightarrow> real \<Rightarrow> real) \<Rightarrow> real \<times> real \<Rightarrow> real \<Rightarrow> real \<Rightarrow> real \<Rightarrow> real" where
  "sample_pvspin getLST obs ra dec jd =
     - 0.465 * cos (dtor * fst obs) * cos (dec * dtor) * sin ((getLST jd (- snd obs) - ra) * 15 * dtor)"

text \<open>
  The projection of the solar motion \<open>vv\<close> onto the direction of the source at
  \<open>(ra, dec)\<close>, written out: the sum of the three products of components. A component
  that is not a number makes the sum not a number.
\<close>

definition projected_pvlsr :: "fl \<times> fl \<times> fl \<Rightarrow> real \<Rightarrow> real \<Rightarrow> fl" where
  "projected_pvlsr vv ra dec =
     (case vv of
        (Fin vx, Fin vy, Fin vz) \<Rightarrow>
          Fin (vx * (cos (dec * dtor) * cos (ra * 15 * dtor))
             + vy * (cos (dec * dtor) * sin (ra * 15 * dtor))
             + vz * sin (dec * dtor))
      | _ \<Rightarrow> NaN)"

text \<open>The observer location that lines 117-125 resolve.\<close>

definition observer :: "real option \<Rightarrow> real option \<Rightarrow> real \<times> real" where
  "observer nlat wlong =
     (case (nlat, wlong) of
        (Some la, Some lo) \<Rightarrow> if la \<noteq> 0 \<and> lo \<noteq> 0 then (la, lo) else (37.8732, 122.2573)
      | _ \<Rightarrow> (37.8732, 122.2573))"

text \<open>The precession matrix between equal epochs (section 4.1 of the specification).\<close>

definition identity3 :: mat3 where
  "identity3 = ((1, 0, 0), (0, 1, 0), (0, 0, 1))"

text \<open>
  Collaborators for concrete instances: an Earth at rest, no precession, sidereal time
  zero.
\<close>

definition baryvel_rest :: "real \<Rightarrow> real \<Rightarrow> vec3 \<times> vec3" where
  "baryvel_rest jd epoch = ((0, 0, 0), (0, 0, 0))"

definition premat_identity :: "real \<Rightarrow> real \<Rightarrow> bool \<Rightarrow> mat3" where
  "premat_identity equinox1 equinox2 fk4 = identity3"

definition getLST_zero :: "real \<Rightarrow> real \<Rightarrow> real" where
  "getLST_zero jd lon = 0"

fun is_print :: "event \<Rightarrow> bool" where
  "is_print (Print s) = True"
| "is_print ev = False"

fun is_call_precess :: "event \<Rightarrow> bool" where
  "is_call_precess (Call_precess ra dec e1 e2) = True"
| "is_call_precess ev = False"

section \<open>Basic facts\<close>

lemma bind_e_simps [simp]:
  "bind_e (Inl e) f = Inl e"
  "bind_e (Inr x) f = f x"
  by (simp_all add: bind_e_def)

lemma io_bind_pure [simp]: "io_bind (io_pure x) f = f x"
  by (simp add: io_bind_def io_pure_def split: prod.splits)

lemma io_bind_of_Inr [simp]: "io_bind (io_of (Inr x)) f = f x"
  by (simp add: io_bind_def io_of_def split: prod.splits)

lemma io_bind_of_Inl [simp]: "io_bind (io_of (Inl e)) f = ([], Inl e)"
  by (simp add: io_bind_def io_of_def)

lemma io_bind_emit [simp]: "io_bind (io_emit ev) f = (ev # fst (f ()), snd (f ()))"
  by (simp add: io_bind_def io_emit_def split: prod.splits)

lemma io_bind_Inl [simp]: "io_bind (es, Inl e) f = (es, Inl e)"
  by (simp add: io_bind_def)

lemma io_bind_Inr [simp]: "io_bind (es, Inr x) f = (es @ fst (f x), snd (f x))"
  by (simp add: io_bind_def split: prod.splits)

lemma cos_apex [simp]: "cos (3 * pi / 2) = 0"
  using cos_3over2_pi by (simp add: mult.commute)

lemma sin_apex [simp]: "sin (3 * pi / 2) = - 1"
  using sin_3over2_pi by (simp add: mult.commute)

lemma orbit_loop_vec:
  "\<forall>i \<in> set is. i < length jds \<Longrightarrow>
   orbit_loop bv (Vec jds) xx is =
     (map (\<lambda>i. Call_baryvel (jds ! i) 2000) is,
      Inr (map (\<lambda>i. dot3 (fst (bv (jds ! i) 2000)) (column xx i)) is,
           map (\<lambda>i. dot3 (snd (bv (jds ! i) 2000)) (column xx i)) is))"
proof (induction "is")
  case Nil
  show ?case by (simp add: io_pure_def)
next
  case (Cons a "is")
  have a: "a < length jds" using Cons.prems by simp
  have rest: "\<forall>i \<in> set is. i < length jds" using Cons.prems by simp
  obtain v w where bv: "bv (jds ! a) 2000 = (v, w)" by (cases "bv (jds ! a) 2000")
  show ?case using a bv Cons.IH [OF rest] by (simp add: io_pure_def)
qed

lemma xxsource_rows_vec2:
  assumes "length ras = n" "length decs = n"
  shows "xxsource_rows n (Vec (map (\<lambda>v. v * 15 * dtor) ras)) (Vec (map (\<lambda>v. v * dtor) decs)) =
     Inr (map (\<lambda>i. fst (source_direction (ras ! i) (decs ! i))) [0..<n],
          map (\<lambda>i. fst (snd (source_direction (ras ! i) (decs ! i)))) [0..<n],
          map (\<lambda>i. snd (snd (source_direction (ras ! i) (decs ! i)))) [0..<n])"
  using assms by (auto simp add: xxsource_rows_def source_direction_def intro!: nth_equalityI)

lemma column_maps: "i < n \<Longrightarrow>
   column (map (\<lambda>i. fst (f i)) [0..<n], map (\<lambda>i. fst (snd (f i))) [0..<n], map (\<lambda>i. snd (snd (f i))) [0..<n]) i = f i"
  by (simp add: column_def)

lemma precess_scalar_radian:
  "precess premat (Scalar a) (Scalar d) e1 e2 fk4 True =
     (case premat e1 e2 fk4 of (r0, r1, r2) \<Rightarrow>
        Inr ([arctan2 (dot3 r1 (cos d * cos a, cos d * sin a, sin d))
                      (dot3 r0 (cos d * cos a, cos d * sin a, sin d))],
             [np_arcsin (dot3 r2 (cos d * cos a, cos d * sin a, sin d))]))"
  by (simp add: precess_def direction_cosines_def np_dot_def split: prod.splits)

lemma precess_apex_ex:
  "\<exists>r d. precess premat (Scalar a) (Scalar dc) e1 e2 fk4 True = Inr ([r], [d])"
  by (simp add: precess_scalar_radian split: prod.splits)

lemma vvlsr_of_precess:
  assumes "precess premat (Scalar (2 * pi * 18 / 24)) (Scalar (dtor * 30)) 1900 2000 False True
             = Inr ([r], [d])"
  shows "vvlsr premat = ([Call_precess (2 * pi * 18 / 24) (dtor * 30) 1900 2000],
          Inr (fl1 ((*) 20) (fl2 (*) (fl1 cos d) (Fin (cos (pi + r)))),
               fl1 ((*) 20) (fl2 (*) (fl1 cos d) (Fin (sin r))),
               fl1 ((*) 20) (fl1 sin d)))"
  using assms by (simp add: vvlsr_def Let_def io_pure_def)

lemma obspos_value:
  "obspos nlat wlong =
     (case (nlat, wlong) of
        (Some la, Some lo) \<Rightarrow> if la \<noteq> 0 \<and> lo \<noteq> 0 then ([], Inr (la, lo))
           else ([Print ''I am defaulting to Campbell Hall coordinates''], Inr (37.8732, 122.2573))
      | _ \<Rightarrow> ([Print ''I am defaulting to Campbell Hall coordinates''], Inr (37.8732, 122.2573)))"
  by (simp add: obspos_def truthy_def io_pure_def split: option.splits)

lemma pvspin_vec:
  assumes "length ras = n" "length decs = n" "length jds = n"
  shows "pvspin getLST (Vec ras) (Vec (map (\<lambda>v. v * dtor) decs)) (Vec jds) obs =
     ([Call_getLST (Vec jds) (- snd obs)],
      Inr (Vec (map (\<lambda>i. sample_pvspin getLST obs (ras ! i) (decs ! i) (jds ! i)) [0..<n])))"
  using assms by (auto simp add: pvspin_def sample_pvspin_def io_of_def intro!: nth_equalityI)

lemma vtotal_rows_vec:
  "vtotal_rows n (Vec (map s [0..<n])) (map h [0..<n]) (map b [0..<n]) (map l [0..<n]) =
     Inr [map (\<lambda>i. Fin (- s i)) [0..<n],
          map (\<lambda>i. Fin (- s i - h i)) [0..<n],
          map (\<lambda>i. Fin (- s i - b i)) [0..<n],
          map (\<lambda>i. fl2 (-) (Fin (- s i - b i)) (l i)) [0..<n]]"
  by (auto simp add: vtotal_rows_def intro!: nth_equalityI)

lemma map_upt_cong: "(\<And>i. i < n \<Longrightarrow> f i = g i) \<Longrightarrow> map f [0..<n] = map g [0..<n]"
  by simp

lemma ugdoppler_vec:
  assumes len: "length ras = n" "length decs = n" "length jds = n"
    and vv: "vvlsr premat = (ev, Inr vv)"
    and ob: "obspos nlat wlong = (pe, Inr obs)"
  shows "ugdoppler baryvel premat getLST (Vec ras) (Vec decs) (Vec jds) nlat wlong light =
     (map (\<lambda>jd. Call_baryvel jd 2000) jds @ ev @ pe
        @ [Call_getLST (Vec jds) (- snd obs), Breakpoint],
      Inr ((if light then map (map (fl1 (\<lambda>v. v / 299792.458))) else (\<lambda>m. m))
        [map (\<lambda>i. Fin (- sample_pvspin getLST obs (ras ! i) (decs ! i) (jds ! i))) [0..<n],
         map (\<lambda>i. Fin (- sample_pvspin getLST obs (ras ! i) (decs ! i) (jds ! i)
                       - sample_pvorbit_helio baryvel (ras ! i) (decs ! i) (jds ! i))) [0..<n],
         map (\<lambda>i. Fin (- sample_pvspin getLST obs (ras ! i) (decs ! i) (jds ! i)
                       - sample_pvorbit_bary baryvel (ras ! i) (decs ! i) (jds ! i))) [0..<n],
         map (\<lambda>i. fl2 (-) (Fin (- sample_pvspin getLST obs (ras ! i) (decs ! i) (jds ! i)
                       - sample_pvorbit_bary baryvel (ras ! i) (decs ! i) (jds ! i)))
                     (sample_pvlsr vv (ras ! i) (decs ! i))) [0..<n]]))"
proof -
  let ?xx = "(map (\<lambda>i. fst (source_direction (ras ! i) (decs ! i))) [0..<n],
          map (\<lambda>i. fst (snd (source_direction (ras ! i) (decs ! i)))) [0..<n],
          map (\<lambda>i. snd (snd (source_direction (ras ! i) (decs ! i)))) [0..<n])"
  have xx: "xxsource_rows n (Vec (map (\<lambda>v. v * 15 * dtor) ras)) (Vec (map (\<lambda>v. v * dtor) decs))
      = Inr ?xx"
    using len(1,2) by (rule xxsource_rows_vec2)
  have col: "\<And>i. i < n \<Longrightarrow> column ?xx i = source_direction (ras ! i) (decs ! i)"
    by (rule column_maps)
  have idx: "\<forall>i \<in> set [0..<n]. i < length jds" using len by simp
  have ev1: "map (\<lambda>i. Call_baryvel (jds ! i) 2000) [0..<n] = map (\<lambda>jd. Call_baryvel jd 2000) jds"
    using len by (auto intro!: nth_equalityI)
  have h: "map (\<lambda>i. dot3 (fst (baryvel (jds ! i) 2000)) (column ?xx i)) [0..<n]
      = map (\<lambda>i. sample_pvorbit_helio baryvel (ras ! i) (decs ! i) (jds ! i)) [0..<n]"
    by (rule map_upt_cong) (simp only: col sample_pvorbit_helio_def)
  have b: "map (\<lambda>i. dot3 (snd (baryvel (jds ! i) 2000)) (column ?xx i)) [0..<n]
      = map (\<lambda>i. sample_pvorbit_bary baryvel (ras ! i) (decs ! i) (jds ! i)) [0..<n]"
    by (rule map_upt_cong) (simp only: col sample_pvorbit_bary_def)
  have l: "map (\<lambda>NR. fdot3 vv (column ?xx NR)) [0..<n]
      = map (\<lambda>i. sample_pvlsr vv (ras ! i) (decs ! i)) [0..<n]"
    by (rule map_upt_cong) (simp only: col sample_pvlsr_def)
  have loop: "orbit_loop baryvel (Vec jds) ?xx [0..<n] =
      (map (\<lambda>jd. Call_baryvel jd 2000) jds,
       Inr (map (\<lambda>i. sample_pvorbit_helio baryvel (ras ! i) (decs ! i) (jds ! i)) [0..<n],
            map (\<lambda>i. sample_pvorbit_bary baryvel (ras ! i) (decs ! i) (jds ! i)) [0..<n]))"
    using orbit_loop_vec [OF idx, of baryvel ?xx] by (simp only: ev1 h b)
  have spin: "pvspin getLST (Vec ras) (Vec (map (\<lambda>v. v * dtor) decs)) (Vec jds) obs =
     ([Call_getLST (Vec jds) (- snd obs)],
      Inr (Vec (map (\<lambda>i. sample_pvspin getLST obs (ras ! i) (decs ! i) (jds ! i)) [0..<n])))"
    using len by (rule pvspin_vec)
  show ?thesis
    unfolding ugdoppler_def Let_def
    by (simp add: len xx loop vv ob l spin vtotal_rows_vec io_pure_def del: upt_Suc upt.simps)
qed

lemma set_row_length: "set_row n v = Inr xs \<Longrightarrow> length xs = n"
  by (cases v) (auto split: if_splits)

lemma bind_e_InrD: "bind_e m f = Inr y \<Longrightarrow> \<exists>x. m = Inr x \<and> f x = Inr y"
  by (cases m) simp_all

lemma vtotal_rows_shape:
  assumes "vtotal_rows nin spin h b l = Inr vt"
  shows "length vt = 4 \<and> (\<forall>row \<in> set vt. length row = nin)"
proof -
  from assms obtain geo helio bary lsr where
    g: "set_row nin (ufunc (\<lambda>s. Fin (- s)) spin) = Inr geo" and
    h: "bind_e (broadcast (\<lambda>s h. Fin (- s - h)) spin (Vec h)) (set_row nin) = Inr helio" and
    b: "bind_e (broadcast (\<lambda>s b. Fin (- s - b)) spin (Vec b)) (set_row nin) = Inr bary" and
    l: "bind_e (bind_e (broadcast (\<lambda>s b. Fin (- s - b)) spin (Vec b))
               (\<lambda>sb. broadcast (fl2 (-)) sb (Vec l))) (set_row nin) = Inr lsr" and
    vt: "vt = [geo, helio, bary, lsr]"
    unfolding vtotal_rows_def by (auto dest!: bind_e_InrD)
  have "length geo = nin" using g by (rule set_row_length)
  moreover have "length helio = nin" using h by (auto dest!: bind_e_InrD set_row_length)
  moreover have "length bary = nin" using b by (auto dest!: bind_e_InrD set_row_length)
  moreover have "length lsr = nin" using l by (auto dest!: bind_e_InrD set_row_length)
  ultimately show ?thesis using vt by simp
qed

lemma orbit_loop_events:
  "\<exists>js. fst (orbit_loop bv jd xx is) = map (\<lambda>j. Call_baryvel j 2000) js"
proof (induction "is")
  case Nil
  show ?case by (simp add: io_pure_def)
next
  case (Cons a "is")
  then obtain js where js: "fst (orbit_loop bv jd xx is) = map (\<lambda>j. Call_baryvel j 2000) js" by blast
  show ?case
  proof (cases "np_index jd a")
    case (Inl e)
    then show ?thesis by simp
  next
    case (Inr j)
    obtain v w where bv: "bv j 2000 = (v, w)" by (cases "bv j 2000")
    obtain es r where ol: "orbit_loop bv jd xx is = (es, r)" by (cases "orbit_loop bv jd xx is")
    have es: "es = map (\<lambda>j. Call_baryvel j 2000) js" using js ol by simp
    have "fst (orbit_loop bv jd xx (a # is)) = map (\<lambda>j. Call_baryvel j 2000) (j # js)"
      using Inr bv ol es by (cases r) (simp_all add: io_pure_def split: prod.splits)
    then show ?thesis by blast
  qed
qed

lemma vvlsr_ok:
  "\<exists>vv. vvlsr premat = ([Call_precess (2 * pi * 18 / 24) (dtor * 30) 1900 2000], Inr vv)"
proof -
  obtain r d where "precess premat (Scalar (2 * pi * 18 / 24)) (Scalar (dtor * 30)) 1900 2000 False True
             = Inr ([r], [d])"
    using precess_apex_ex by blast
  from vvlsr_of_precess [OF this] show ?thesis by blast
qed

lemma obspos_ok: "\<exists>pe. obspos nlat wlong = (pe, Inr (observer nlat wlong))"
  by (simp add: obspos_value observer_def split: option.splits)

lemma pvspin_events: "fst (pvspin getLST ra ds jd obs) = [Call_getLST jd (- snd obs)]"
  by (simp add: pvspin_def Let_def io_of_def)

lemma ugdoppler_success:
  assumes "snd (ugdoppler bv pm lst ra dec jd nlat wlong light) = Inr vt"
  shows "\<exists>js vv. vvlsr pm = ([Call_precess (2 * pi * 18 / 24) (dtor * 30) 1900 2000], Inr vv)
      \<and> fst (ugdoppler bv pm lst ra dec jd nlat wlong light) =
          map (\<lambda>j. Call_baryvel j 2000) js @ [Call_precess (2 * pi * 18 / 24) (dtor * 30) 1900 2000]
            @ fst (obspos nlat wlong)
            @ [Call_getLST jd (- snd (observer nlat wlong)), Breakpoint]
      \<and> length vt = 4
      \<and> (\<forall>row \<in> set vt. length row = (case np_len ra of Inr n \<Rightarrow> n | Inl _ \<Rightarrow> 1))"
proof -
  let ?nin = "case np_len ra of Inr n \<Rightarrow> n | Inl _ \<Rightarrow> 1"
  let ?ds = "ufunc (\<lambda>v. v * dtor) dec"
  obtain vv where vv: "vvlsr pm = ([Call_precess (2 * pi * 18 / 24) (dtor * 30) 1900 2000], Inr vv)"
    using vvlsr_ok by blast
  define obs where "obs = observer nlat wlong"
  obtain pe where ob: "obspos nlat wlong = (pe, Inr obs)"
    unfolding obs_def using obspos_ok by blast
  obtain r1 where x: "xxsource_rows ?nin (ufunc (\<lambda>v. v * 15 * dtor) ra) ?ds = r1" by simp
  show ?thesis
  proof (cases r1)
    case (Inl e)
    with x assms show ?thesis by (simp add: ugdoppler_def Let_def)
  next
    case (Inr xx)
    obtain e2 r2 where ol: "orbit_loop bv jd xx [0..<?nin] = (e2, r2)"
      by (cases "orbit_loop bv jd xx [0..<?nin]")
    obtain js where js: "e2 = map (\<lambda>j. Call_baryvel j 2000) js"
      using orbit_loop_events [of bv jd xx "[0..<?nin]"] ol by auto
    show ?thesis
    proof (cases r2)
      case (Inl e)
      with x Inr ol assms show ?thesis by (simp add: ugdoppler_def Let_def)
    next
      case hb: (Inr hb)
      obtain h b where hbp: "hb = (h, b)" by (cases hb)
      obtain r3 where sp: "pvspin lst ra ?ds jd obs = ([Call_getLST jd (- snd obs)], r3)"
        using pvspin_events [of lst ra ?ds jd obs] by (cases "pvspin lst ra ?ds jd obs") simp
      show ?thesis
      proof (cases r3)
        case (Inl e)
        with x Inr ol hb hbp vv ob sp assms show ?thesis
          by (simp add: ugdoppler_def Let_def)
      next
        case spin: (Inr spin)
        let ?l = "map (\<lambda>NR. fdot3 vv (column xx NR)) [0..<?nin]"
        show ?thesis
        proof (cases "vtotal_rows ?nin spin h b ?l")
          case (Inl e)
          with x Inr ol hb hbp vv ob sp spin assms show ?thesis
            by (simp add: ugdoppler_def Let_def)
        next
          case rows: (Inr rows)
          have shape: "length rows = 4 \<and> (\<forall>row \<in> set rows. length row = ?nin)"
            using rows by (rule vtotal_rows_shape)
          have res: "ugdoppler bv pm lst ra dec jd nlat wlong light =
             (map (\<lambda>j. Call_baryvel j 2000) js @ [Call_precess (2 * pi * 18 / 24) (dtor * 30) 1900 2000]
                @ pe @ [Call_getLST jd (- snd obs), Breakpoint],
              Inr (if light then map (map (fl1 (\<lambda>v. v / 299792.458))) rows else rows))"
            using x Inr ol js hb hbp vv ob sp spin rows
            by (simp add: ugdoppler_def Let_def io_pure_def)
          have vt: "vt = (if light then map (map (fl1 (\<lambda>v. v / 299792.458))) rows else rows)"
            using assms res by simp
          show ?thesis using vv ob res shape vt
            by (intro exI [of _ js] exI [of _ vv]) (auto simp add: obs_def)
        qed
      qed
    qed
  qed
qed

section \<open>Failures, events and the observer\<close>

lemma xxsource_rows_mismatch:
  assumes "length ds \<noteq> length rs" "length ds \<noteq> 1"
  shows "xxsource_rows (length rs) (Vec rs) (Vec ds) = Inl ValueError"
  using assms by (simp add: xxsource_rows_def)

lemma orbit_loop_short:
  "\<exists>i \<in> set is. \<not> i < length jds \<Longrightarrow> snd (orbit_loop bv (Vec jds) xx is) = Inl IndexError"
proof (induction "is")
  case Nil
  then show ?case by simp
next
  case (Cons a "is")
  show ?case
  proof (cases "a < length jds")
    case False
    then show ?thesis by simp
  next
    case True
    then have "\<exists>i \<in> set is. \<not> i < length jds" using Cons.prems by auto
    then have ih: "snd (orbit_loop bv (Vec jds) xx is) = Inl IndexError" by (rule Cons.IH)
    obtain v w where bv: "bv (jds ! a) 2000 = (v, w)" by (cases "bv (jds ! a) 2000")
    obtain es where "orbit_loop bv (Vec jds) xx is = (es, Inl IndexError)"
      using ih by (cases "orbit_loop bv (Vec jds) xx is") simp
    then show ?thesis using True bv by simp
  qed
qed

lemma ugdoppler_mismatch_dec:
  assumes "length decs \<noteq> length ras" "length decs \<noteq> 1"
  shows "ugdoppler baryvel premat getLST (Vec ras) (Vec decs) julday nlat wlong light
     = ([], Inl ValueError)"
proof -
  have "xxsource_rows (length ras) (Vec (map (\<lambda>v. v * 15 * dtor) ras))
      (Vec (map (\<lambda>v. v * dtor) decs)) = Inl ValueError"
    using xxsource_rows_mismatch [of "map (\<lambda>v. v * dtor) decs" "map (\<lambda>v. v * 15 * dtor) ras"]
      assms by simp
  then show ?thesis by (simp add: ugdoppler_def Let_def)
qed

lemma ugdoppler_short_julday:
  assumes "length decs = length ras" "length jds < length ras"
  shows "snd (ugdoppler baryvel premat getLST (Vec ras) (Vec decs) (Vec jds) nlat wlong light)
     = Inl IndexError"
proof -
  define n where "n = length ras"
  have l: "length ras = n" "length decs = n" using assms by (simp_all add: n_def)
  have "\<exists>i \<in> set [0..<n]. \<not> i < length jds"
    using assms(2) by (intro bexI [of _ "length jds"]) (simp_all add: n_def)
  then have "snd (orbit_loop baryvel (Vec jds)
      (map (\<lambda>i. fst (source_direction (ras ! i) (decs ! i))) [0..<n],
          map (\<lambda>i. fst (snd (source_direction (ras ! i) (decs ! i)))) [0..<n],
          map (\<lambda>i. snd (snd (source_direction (ras ! i) (decs ! i)))) [0..<n]) [0..<n])
      = Inl IndexError" (is "snd ?ol = _")
    by (rule orbit_loop_short)
  then obtain es where "?ol = (es, Inl IndexError)" by (cases ?ol) simp
  then show ?thesis
    by (simp add: ugdoppler_def Let_def l xxsource_rows_vec2 [OF l] del: upt_Suc upt.simps)
qed

lemma obspos_default:
  "\<not> (truthy nlat \<and> truthy wlong) \<Longrightarrow>
   obspos nlat wlong = ([Print ''I am defaulting to Campbell Hall coordinates''], Inr (37.8732, 122.2573))"
  by (auto simp add: obspos_value truthy_def split: option.splits)

lemma obspos_supplied:
  "truthy nlat \<and> truthy wlong \<Longrightarrow>
   \<exists>la lo. nlat = Some la \<and> wlong = Some lo \<and> obspos nlat wlong = ([], Inr (la, lo))"
  by (auto simp add: obspos_value truthy_def split: option.splits)

lemma ugdoppler_obspos_cong:
  "obspos nlat wlong = obspos nlat' wlong' \<Longrightarrow>
   ugdoppler bv pm lst ra dec jd nlat wlong light = ugdoppler bv pm lst ra dec jd nlat' wlong' light"
  by (simp add: ugdoppler_def Let_def)

lemma pvspin_mirror:
  "pvspin lst ra ds jd (- la, lo) = pvspin lst ra ds jd (la, lo)"
  by (simp add: pvspin_def Let_def)

lemma filter_print_baryvel: "filter is_print (map (\<lambda>j. Call_baryvel j 2000) js) = []"
  by (induction js) simp_all

lemma filter_precess_baryvel: "filter is_call_precess (map (\<lambda>j. Call_baryvel j 2000) js) = []"
  by (induction js) simp_all

lemma obspos_events:
  "fst (obspos nlat wlong) = (if truthy nlat \<and> truthy wlong then []
      else [Print ''I am defaulting to Campbell Hall coordinates''])"
  by (auto simp add: obspos_value truthy_def split: option.splits)

lemma precess_called_once:
  assumes "snd (ugdoppler bv pm lst ra dec jd nlat wlong light) = Inr vt"
  shows "length (filter is_call_precess (fst (ugdoppler bv pm lst ra dec jd nlat wlong light))) = 1"
proof -
  from ugdoppler_success [OF assms] obtain js where
    "fst (ugdoppler bv pm lst ra dec jd nlat wlong light) =
          map (\<lambda>j. Call_baryvel j 2000) js @ [Call_precess (2 * pi * 18 / 24) (dtor * 30) 1900 2000]
            @ fst (obspos nlat wlong)
            @ [Call_getLST jd (- snd (observer nlat wlong)), Breakpoint]"
    by blast
  then show ?thesis by (simp add: filter_precess_baryvel obspos_events)
qed

lemma vvlsr_identity:
  "\<exists>vy vz. vvlsr premat_identity =
     ([Call_precess (2 * pi * 18 / 24) (dtor * 30) 1900 2000], Inr (Fin 0, Fin vy, Fin vz))"
proof -
  have d: "dtor * 30 = pi / 6" by (simp add: dtor_def)
  have c: "0 < cos (pi / 6)" by (simp add: cos_30)
  have a: "arctan2 (- cos (pi / 6)) 0 = - (pi / 2)" using c by (simp add: arctan2_def)
  have p: "precess premat_identity (Scalar (2 * pi * 18 / 24)) (Scalar (dtor * 30)) 1900 2000 False True
      = Inr ([- (pi / 2)], [Fin (arcsin (1 / 2))])"
    unfolding precess_scalar_radian d
    by (simp add: premat_identity_def identity3_def dot3_def a sin_30 np_arcsin_def)
  show ?thesis unfolding vvlsr_of_precess [OF p] by simp
qed

lemma broadcast_dec_returns:
  "snd (ugdoppler baryvel_rest premat_identity getLST_zero (Vec [0, 0]) (Vec [0]) (Vec [0, 0])
          None None False)
   = Inr [[Fin 0, Fin 0], [Fin 0, Fin 0], [Fin 0, Fin 0], [Fin 0, Fin 0]]"
proof -
  obtain vy vz where vv: "vvlsr premat_identity =
     ([Call_precess (2 * pi * 18 / 24) (dtor * 30) 1900 2000], Inr (Fin 0, Fin vy, Fin vz))"
    using vvlsr_identity by blast
  have two: "[0..<2] = [0, 1]" by (simp add: numeral_2_eq_2)
  show ?thesis
    by (simp add: ugdoppler_def Let_def xxsource_rows_def two vv obspos_value pvspin_def
        vtotal_rows_def baryvel_rest_def getLST_zero_def io_pure_def io_of_def
        column_def dot3_def fdot3_def)
qed

lemma fdot3_written_out:
  "fdot3 vv (source_direction ra dec) = projected_pvlsr vv ra dec"
proof -
  obtain a b c where vv: "vv = (a, b, c)" by (cases vv)
  show ?thesis
    unfolding vv
    by (cases a; cases b; cases c)
       (simp_all add: fdot3_def source_direction_def projected_pvlsr_def)
qed

section \<open>Trigonometry of the direction cosines\<close>

lemma cos_nonpos_upper: "pi / 2 \<le> t \<Longrightarrow> t \<le> pi \<Longrightarrow> cos t \<le> 0"
  using cos_monotone_0_pi_le [of "pi / 2" t] by simp

lemma cos_pos_range: "0 < cos t \<Longrightarrow> - pi < t \<Longrightarrow> t \<le> pi \<Longrightarrow> - (pi / 2) < t \<and> t < pi / 2"
proof (intro conjI)
  assume c: "0 < cos t" and lo: "- pi < t" and hi: "t \<le> pi"
  show "t < pi / 2"
  proof (rule ccontr)
    assume "\<not> t < pi / 2"
    then have "cos t \<le> 0" using hi by (intro cos_nonpos_upper) simp_all
    with c show False by simp
  qed
  show "- (pi / 2) < t"
  proof (rule ccontr)
    assume "\<not> - (pi / 2) < t"
    then have "cos (- t) \<le> 0" using lo by (intro cos_nonpos_upper) simp_all
    with c show False by simp
  qed
qed

lemma cos_neg_sin_nonneg: "cos t < 0 \<Longrightarrow> 0 \<le> sin t \<Longrightarrow> - pi < t \<Longrightarrow> t \<le> pi \<Longrightarrow> pi / 2 < t"
proof (rule ccontr)
  assume c: "cos t < 0" and s: "0 \<le> sin t" and lo: "- pi < t" and hi: "t \<le> pi"
    and n: "\<not> pi / 2 < t"
  show False
  proof (cases "- (pi / 2) \<le> t")
    case True
    then have "0 \<le> cos t" using n by (intro cos_ge_zero) simp_all
    with c show False by simp
  next
    case False
    then have "0 < sin (- t)" using lo pi_gt_zero by (intro sin_gt_zero) linarith+
    with s show False by simp
  qed
qed

lemma cos_neg_sin_neg: "cos t < 0 \<Longrightarrow> sin t < 0 \<Longrightarrow> - pi < t \<Longrightarrow> t \<le> pi \<Longrightarrow> t < - (pi / 2)"
proof (rule ccontr)
  assume c: "cos t < 0" and s: "sin t < 0" and lo: "- pi < t" and hi: "t \<le> pi"
    and n: "\<not> t < - (pi / 2)"
  show False
  proof (cases "t \<le> pi / 2")
    case True
    then have "0 \<le> cos t" using n by (intro cos_ge_zero) simp_all
    with c show False by simp
  next
    case False
    then have "0 \<le> sin t" using hi pi_gt_zero by (intro sin_ge_zero) linarith+
    with s show False by simp
  qed
qed

lemma cos_zero_range: "cos t = 0 \<Longrightarrow> - pi < t \<Longrightarrow> t \<le> pi \<Longrightarrow> t = pi / 2 \<or> t = - (pi / 2)"
proof -
  assume c: "cos t = 0" and lo: "- pi < t" and hi: "t \<le> pi"
  show ?thesis
  proof (cases "0 \<le> t")
    case True
    have "t = pi / 2"
      by (rule cos_inj_pi [of t "pi / 2"]) (use True hi c pi_gt_zero in simp_all)
    then show ?thesis by simp
  next
    case False
    have "- t = pi / 2"
      by (rule cos_inj_pi [of "- t" "pi / 2"]) (use False lo c pi_gt_zero in simp_all)
    then show ?thesis by simp
  qed
qed

lemma tan_minus_pi: "tan (t - pi) = tan (t::real)"
  using tan_periodic_pi [of "t - pi"] by simp

lemma arctan2_polar:
  assumes c: "0 < c" and lo: "- pi < t" and hi: "t \<le> pi"
  shows "arctan2 (c * sin t) (c * cos t) = t"
proof -
  have q: "c * sin t / (c * cos t) = tan t" using c by (simp add: tan_def)
  have a2: "arctan2 (c * sin t) (c * cos t) =
     (if 0 < c * cos t then arctan (tan t)
      else if c * cos t < 0 then (if 0 \<le> c * sin t then arctan (tan t) + pi else arctan (tan t) - pi)
      else if 0 < c * sin t then pi / 2
      else if c * sin t < 0 then - (pi / 2)
      else 0)"
    unfolding arctan2_def q by (rule refl)
  consider (pos) "0 < cos t" | (neg) "cos t < 0" | (zero) "cos t = 0" by linarith
  then show ?thesis
  proof cases
    case pos
    then have "- (pi / 2) < t \<and> t < pi / 2" using lo hi by (rule cos_pos_range)
    then have "arctan (tan t) = t" by (simp add: arctan_tan)
    moreover have "0 < c * cos t" using c pos by simp
    ultimately show ?thesis unfolding a2 by simp
  next
    case neg
    have x: "c * cos t < 0" using c neg by (simp add: mult_pos_neg)
    show ?thesis
    proof (cases "0 \<le> sin t")
      case True
      then have "pi / 2 < t" using neg lo hi by (intro cos_neg_sin_nonneg)
      then have "arctan (tan (t - pi)) = t - pi" using hi by (intro arctan_tan) simp_all
      moreover have "tan (t - pi) = tan t" by (rule tan_minus_pi)
      moreover have "0 \<le> c * sin t" using c True by simp
      ultimately show ?thesis unfolding a2 using x by simp
    next
      case False
      then have s: "sin t < 0" by simp
      then have "t < - (pi / 2)" using neg lo hi by (intro cos_neg_sin_neg)
      then have "arctan (tan (t + pi)) = t + pi" using lo by (intro arctan_tan) simp_all
      moreover have "tan (t + pi) = tan t" by simp
      moreover have "c * sin t < 0" using c s by (simp add: mult_pos_neg)
      ultimately show ?thesis unfolding a2 using x by simp
    qed
  next
    case zero
    then consider "t = pi / 2" | "t = - (pi / 2)" using lo hi cos_zero_range by blast
    then show ?thesis
    proof cases
      case 1
      have "cos t = 0" "sin t = 1" unfolding 1 by simp_all
      then have e: "arctan2 (c * sin t) (c * cos t) = pi / 2" unfolding a2 using c by simp
      show ?thesis unfolding e using 1 by simp
    next
      case 2
      have "cos t = 0" "sin t = - 1" unfolding 2 by simp_all
      then have e: "arctan2 (c * sin t) (c * cos t) = - (pi / 2)" unfolding a2 using c by simp
      show ?thesis unfolding e using 2 by simp
    qed
  qed
qed

lemma np_dot_identity:
  assumes "length x0 = n" "length x1 = n" "length x2 = n"
  shows "np_dot identity3 (x0, x1, x2) = (x0, x1, x2)"
  using assms by (auto simp add: np_dot_def identity3_def dot3_def intro!: nth_equalityI)

lemma deg_to_rad_pos: "0 < deg_to_rad"
  by (simp add: deg_to_rad_def)

lemma deg_lt: "a < b \<Longrightarrow> a * deg_to_rad < b * deg_to_rad"
  using deg_to_rad_pos by simp

lemma deg_le: "a \<le> b \<Longrightarrow> a * deg_to_rad \<le> b * deg_to_rad"
  using deg_to_rad_pos by simp

lemma deg_vals:
  "90 * deg_to_rad = pi / 2" "- 90 * deg_to_rad = - (pi / 2)"
  "180 * deg_to_rad = pi" "360 * deg_to_rad = 2 * pi"
  by (simp_all add: deg_to_rad_def)

lemma ra_roundtrip:
  assumes r: "0 \<le> r" "r < 360" and d: "- 90 < d" "d < 90"
  shows "(\<lambda>ra. ra + (if ra < 0 then 1 else 0) * 360)
           (arctan2 (cos (d * deg_to_rad) * sin (r * deg_to_rad))
                    (cos (d * deg_to_rad) * cos (r * deg_to_rad)) / deg_to_rad) = r"
proof -
  have c: "0 < cos (d * deg_to_rad)"
    using deg_lt [OF d(1)] deg_lt [OF d(2)] by (intro cos_gt_zero_pi) (simp_all add: deg_vals)
  have r0: "0 \<le> r * deg_to_rad" using deg_le [OF r(1)] by simp
  have r2: "r * deg_to_rad < 2 * pi" using deg_lt [OF r(2)] by (simp add: deg_vals)
  show ?thesis
  proof (cases "r \<le> 180")
    case True
    have "arctan2 (cos (d * deg_to_rad) * sin (r * deg_to_rad))
            (cos (d * deg_to_rad) * cos (r * deg_to_rad)) = r * deg_to_rad"
    proof (rule arctan2_polar [OF c])
      show "- pi < r * deg_to_rad" using r0 pi_gt_zero by linarith
      show "r * deg_to_rad \<le> pi" using deg_le [OF True] by (simp add: deg_vals)
    qed
    then show ?thesis using r deg_to_rad_pos by simp
  next
    case False
    have s: "sin (r * deg_to_rad) = sin (r * deg_to_rad - 2 * pi)"
      using sin_periodic [of "r * deg_to_rad - 2 * pi"] by simp
    have k: "cos (r * deg_to_rad) = cos (r * deg_to_rad - 2 * pi)"
      using cos_periodic [of "r * deg_to_rad - 2 * pi"] by simp
    have "arctan2 (cos (d * deg_to_rad) * sin (r * deg_to_rad - 2 * pi))
            (cos (d * deg_to_rad) * cos (r * deg_to_rad - 2 * pi)) = r * deg_to_rad - 2 * pi"
    proof (rule arctan2_polar [OF c])
      have "pi < r * deg_to_rad" using deg_lt [of 180 r] False by (simp add: deg_vals)
      then show "- pi < r * deg_to_rad - 2 * pi" by linarith
      show "r * deg_to_rad - 2 * pi \<le> pi" using r2 pi_gt_zero by linarith
    qed
    then have e: "arctan2 (cos (d * deg_to_rad) * sin (r * deg_to_rad))
            (cos (d * deg_to_rad) * cos (r * deg_to_rad)) = r * deg_to_rad - 2 * pi"
      by (simp only: s [symmetric] k [symmetric])
    have "(r * deg_to_rad - 2 * pi) / deg_to_rad = r - 360"
      by (simp add: deg_to_rad_def field_simps)
    then show ?thesis unfolding e using r by simp
  qed
qed

lemma dec_roundtrip:
  assumes "- 90 \<le> d" "d \<le> 90"
  shows "fl1 (\<lambda>v. v / deg_to_rad) (np_arcsin (sin (d * deg_to_rad))) = Fin d"
proof -
  have "arcsin (sin (d * deg_to_rad)) = d * deg_to_rad"
    using deg_le [OF assms(1)] deg_le [OF assms(2)] by (intro arcsin_sin) (simp_all add: deg_vals)
  then show ?thesis using deg_to_rad_pos by (simp add: np_arcsin_def)
qed

lemma direction_cosines_deg:
  assumes "length ras = n" "length decs = n"
  shows "direction_cosines n (Vec (map (\<lambda>v. v * deg_to_rad) ras))
           (Vec (map (\<lambda>v. v * deg_to_rad) decs)) =
     Inr (map (\<lambda>i. cos (decs ! i * deg_to_rad) * cos (ras ! i * deg_to_rad)) [0..<n],
          map (\<lambda>i. cos (decs ! i * deg_to_rad) * sin (ras ! i * deg_to_rad)) [0..<n],
          map (\<lambda>i. sin (decs ! i * deg_to_rad)) [0..<n])"
  using assms by (auto simp add: direction_cosines_def intro!: nth_equalityI)

lemma precess_identity_vec:
  assumes id: "premat E E FK4 = identity3"
    and len: "length ras = length decs"
    and ra: "\<forall>r \<in> set ras. 0 \<le> r \<and> r < 360"
    and dec: "\<forall>d \<in> set decs. - 90 < d \<and> d < 90"
  shows "precess premat (Vec ras) (Vec decs) E E FK4 False = Inr (ras, map Fin decs)"
proof -
  define n where "n = length decs"
  have l: "length ras = n" "length decs = n" using len by (simp_all add: n_def)
  have ri: "\<And>i. i < n \<Longrightarrow> 0 \<le> ras ! i \<and> ras ! i < 360" using ra l by simp
  have di: "\<And>i. i < n \<Longrightarrow> - 90 < decs ! i \<and> decs ! i < 90" using dec l by simp
  have di': "\<And>i. i < n \<Longrightarrow> - 90 \<le> decs ! i \<and> decs ! i \<le> 90"
    using di by (simp add: less_imp_le)
  have "precess premat (Vec ras) (Vec decs) E E FK4 False =
      Inr (map (\<lambda>i. (\<lambda>ra. ra + (if ra < 0 then 1 else 0) * 360)
             (arctan2 (cos (decs ! i * deg_to_rad) * sin (ras ! i * deg_to_rad))
                      (cos (decs ! i * deg_to_rad) * cos (ras ! i * deg_to_rad)) / deg_to_rad))
             [0..<n],
           map (\<lambda>i. fl1 (\<lambda>v. v / deg_to_rad) (np_arcsin (sin (decs ! i * deg_to_rad)))) [0..<n])"
    using l
    by (auto simp add: precess_def direction_cosines_deg [OF l] id np_dot_identity [of _ n]
        intro!: nth_equalityI)
  also have "\<dots> = Inr (map (\<lambda>i. ras ! i) [0..<n], map (\<lambda>i. Fin (decs ! i)) [0..<n])"
    using ri di di' by (simp add: ra_roundtrip dec_roundtrip)
  also have "\<dots> = Inr (ras, map Fin decs)"
    using l by (auto intro!: nth_equalityI)
  finally show ?thesis .
qed

lemma precess_identity_scalar:
  assumes id: "premat E E FK4 = identity3"
    and ra: "0 \<le> r \<and> r < 360"
    and dec: "- 90 < d \<and> d < 90"
  shows "precess premat (Scalar r) (Scalar d) E E FK4 False = Inr ([r], [Fin d])"
proof -
  have "precess premat (Scalar r) (Scalar d) E E FK4 False =
      Inr ([(\<lambda>ra. ra + (if ra < 0 then 1 else 0) * 360)
             (arctan2 (cos (d * deg_to_rad) * sin (r * deg_to_rad))
                      (cos (d * deg_to_rad) * cos (r * deg_to_rad)) / deg_to_rad)],
           [fl1 (\<lambda>v. v / deg_to_rad) (np_arcsin (sin (d * deg_to_rad)))])"
    by (simp add: precess_def direction_cosines_def id np_dot_def identity3_def dot3_def)
  also have "\<dots> = Inr ([r], [Fin d])"
    using ra dec by (simp only: ra_roundtrip dec_roundtrip less_imp_le)
  finally show ?thesis .
qed

lemma bind_e_prod_InrD:
  "bind_e m (\<lambda>(a, b). f a b) = Inr y \<Longrightarrow> \<exists>a b. m = Inr (a, b) \<and> f a b = Inr y"
  by (cases m) auto

lemma arctan2_range: "- pi < arctan2 y x \<and> arctan2 y x \<le> pi"
proof -
  have b: "- (pi / 2) < arctan (y / x)" "arctan (y / x) < pi / 2"
    by (rule arctan_lbound, rule arctan_ubound)
  consider (pos) "0 < x" | (up) "x < 0" "0 \<le> y" | (down) "x < 0" "y < 0" | (zero) "x = 0"
    by linarith
  then show ?thesis
  proof cases
    case pos
    then show ?thesis using b pi_gt_zero by (simp add: arctan2_def; linarith)
  next
    case up
    then have "y / x \<le> 0" by (simp add: divide_nonneg_neg)
    then have "arctan (y / x) \<le> 0" by (simp add: arctan_le_zero_iff)
    then show ?thesis using up b pi_gt_zero by (simp add: arctan2_def; linarith)
  next
    case down
    then have "0 < y / x" by (simp add: divide_neg_neg)
    then have "0 < arctan (y / x)" by (simp add: zero_less_arctan_iff)
    then show ?thesis using down b pi_gt_zero by (simp add: arctan2_def; linarith)
  next
    case zero
    then show ?thesis using pi_gt_zero by (simp add: arctan2_def; linarith)
  qed
qed

lemma degrees_in_range:
  "0 \<le> (\<lambda>ra. ra + (if ra < 0 then 1 else 0) * 360) (arctan2 y x / deg_to_rad)
   \<and> (\<lambda>ra. ra + (if ra < 0 then 1 else 0) * 360) (arctan2 y x / deg_to_rad) < 360"
proof -
  let ?a = "arctan2 y x / deg_to_rad"
  have "- pi / deg_to_rad < ?a" using arctan2_range [of y x] deg_to_rad_pos
    by (intro divide_strict_right_mono) simp_all
  then have lo: "- 180 < ?a" by (simp add: deg_to_rad_def)
  have "?a \<le> pi / deg_to_rad" using arctan2_range [of y x] deg_to_rad_pos
    by (intro divide_right_mono) simp_all
  then have hi: "?a \<le> 180" by (simp add: deg_to_rad_def)
  show ?thesis using lo hi by simp
qed

lemma precess_ra_elem:
  assumes "precess premat ra dec e1 e2 fk4 False = Inr (ra', dec')" and "v \<in> set ra'"
  shows "\<exists>y x. v = (\<lambda>ra. ra + (if ra < 0 then 1 else 0) * 360) (arctan2 y x / deg_to_rad)"
  using assms unfolding precess_def Let_def np_dot_def
  apply -
  apply (drule bind_e_prod_InrD)
  apply (elim exE conjE)
  apply (drule bind_e_InrD)
  apply (elim exE conjE)
  apply (auto split: prod.splits if_splits)
   apply blast+
  done

lemma precess_degrees_ra_range:
  assumes "precess premat ra dec e1 e2 fk4 False = Inr (ra', dec')"
  shows "\<forall>v \<in> set ra'. 0 \<le> v \<and> v < 360"
proof
  fix v assume "v \<in> set ra'"
  from precess_ra_elem [OF assms this] obtain y x where
    "v = (\<lambda>ra. ra + (if ra < 0 then 1 else 0) * 360) (arctan2 y x / deg_to_rad)"
    by blast
  then show "0 \<le> v \<and> v < 360" using degrees_in_range [of y x] by simp
qed

section \<open>precess: the claims\<close>

text \<open>
  C7. The docstring of \<open>precess\<close> promises vectors in radians as well as in degrees.
  In radian mode the code converts with \<open>float(ra)\<close>, which only accepts a single
  number: a call with \<open>radian=True\<close> and a right-ascension vector of any length other
  than 1 raises TypeError, whatever the declinations, the precession matrix and the
  epochs.
\<close>

theorem precess_radian_vector_fails:
  "length ras \<noteq> 1 \<Longrightarrow>
   precess premat (Vec ras) dec equinox1 equinox2 FK4 True = Inl TypeError"
  by (cases ras) (simp_all add: precess_def split: list.splits)

theorem precess_radian_vector_fails_witness:
  "length [0, 0 :: real] \<noteq> 1
   \<and> precess premat_identity (Vec [0, 0]) (Vec [0, 0]) 2000 2000 False True = Inl TypeError"
  using precess_radian_vector_fails [of "[0, 0]" premat_identity "Vec [0, 0]" 2000 2000 False]
  by simp

text \<open>
  C4. In degrees, and over the real numbers, every right ascension returned lies in
  \<open>[0, 360)\<close>: the degree branch adds a full turn to a negative value (rounding, which
  can turn a tiny negative value into 360 itself, is outside the model). The radian
  branch returns the right ascension as
  \<open>arctan2\<close> leaves it: with the identity matrix of equal epochs, the right ascension
  of 18 hours, \<open>3\<pi>/2\<close>, comes back as \<open>-\<pi>/2\<close>.
\<close>

theorem precess_ra_range:
  "(precess premat ra dec equinox1 equinox2 FK4 False = Inr (ra', dec')
      \<longrightarrow> (\<forall>v \<in> set ra'. 0 \<le> v \<and> v < 360))
   \<and> (premat E E FK4 = identity3
      \<longrightarrow> precess premat (Scalar (3 / 2 * pi)) (Scalar 0) E E FK4 True
           = Inr ([- (pi / 2)], [Fin 0]))"
proof (intro conjI impI)
  assume "precess premat ra dec equinox1 equinox2 FK4 False = Inr (ra', dec')"
  then show "\<forall>v \<in> set ra'. 0 \<le> v \<and> v < 360" by (rule precess_degrees_ra_range)
next
  assume "premat E E FK4 = identity3"
  then show "precess premat (Scalar (3 / 2 * pi)) (Scalar 0) E E FK4 True
           = Inr ([- (pi / 2)], [Fin 0])"
    by (simp add: precess_def direction_cosines_def np_dot_def identity3_def dot3_def
        arctan2_def np_arcsin_def)
qed

theorem precess_ra_range_witness:
  "precess premat_identity (Scalar 350) (Scalar (- 45)) 2000 2000 False False
     = Inr ([350], [Fin (- 45)])
   \<and> (0::real) \<le> 350 \<and> (350::real) < 360
   \<and> premat_identity 2000 2000 False = identity3
   \<and> precess premat_identity (Scalar (3 / 2 * pi)) (Scalar 0) 2000 2000 False True
       = Inr ([- (pi / 2)], [Fin 0])
   \<and> - (pi / 2) < 0"
proof -
  have d: "precess premat_identity (Scalar 350) (Scalar (- 45)) 2000 2000 False False
     = Inr ([350], [Fin (- 45)])"
    by (rule precess_identity_scalar) (simp_all add: premat_identity_def)
  have i: "premat_identity 2000 2000 False = identity3" by (simp add: premat_identity_def)
  from precess_ra_range [of premat_identity "Scalar 350" "Scalar (- 45)" 2000 2000 False
      "[350]" "[Fin (- 45)]" 2000] d i
  show ?thesis by simp
qed

text \<open>
  C6. Precession between equal epochs is the identity: for every epoch \<open>E\<close> and either
  value of the FK4 flag, when \<open>premat\<close> returns the identity matrix for \<open>(E, E)\<close>, a call
  in degrees returns the coordinates it was given, for equal-length vectors and for a
  scalar pair (which comes back as arrays of one element). The right ascension is in
  \<open>[0, 360)\<close> and the declination strictly between the poles, where the right ascension
  is determined.
\<close>

theorem precess_identity:
  assumes "premat E E FK4 = identity3"
    and "length ras = length decs"
    and "\<forall>r \<in> set ras. 0 \<le> r \<and> r < 360"
    and "\<forall>d \<in> set decs. - 90 < d \<and> d < 90"
    and "0 \<le> r \<and> r < 360"
    and "- 90 < d \<and> d < 90"
  shows "precess premat (Vec ras) (Vec decs) E E FK4 False = Inr (ras, map Fin decs)
     \<and> precess premat (Scalar r) (Scalar d) E E FK4 False = Inr ([r], [Fin d])"
  using assms by (simp add: precess_identity_vec precess_identity_scalar)

theorem precess_identity_witness:
  "premat_identity 1950 1950 True = identity3
   \<and> length [10, 200 :: real] = length [20, - 30 :: real]
   \<and> precess premat_identity (Vec [10, 200]) (Vec [20, - 30]) 1950 1950 True False
       = Inr ([10, 200], map Fin [20, - 30])
   \<and> precess premat_identity (Scalar 350) (Scalar (- 45)) 1950 1950 True False
       = Inr ([350], [Fin (- 45)])"
  using precess_identity [of premat_identity 1950 True "[10, 200]" "[20, - 30]" 350 "- 45"]
  by (simp add: premat_identity_def)

section \<open>ugdoppler: the claims\<close>

text \<open>
  C1. For a batch, that is equal-length vectors of right ascensions, declinations and
  Julian days, the call returns, and the matrix returned has the four rows
  geocentric \<open>-pvspin\<close>, heliocentric \<open>-pvspin - pvorbit_helio\<close>, barycentric
  \<open>-pvspin - pvorbit_bary\<close> and LSR \<open>-pvspin - pvorbit_bary - pvlsr\<close>, in this order,
  each entry built from the contributions of its own sample. With \<open>light\<close> set every
  entry is divided by the speed of light.
\<close>

theorem ugdoppler_combination:
  assumes "length decs = length ras" and "length jds = length ras"
  shows "\<exists>vv. snd (vvlsr premat) = Inr vv \<and>
     snd (ugdoppler baryvel premat getLST (Vec ras) (Vec decs) (Vec jds) nlat wlong light) =
       Inr ((if light then map (map (fl1 (\<lambda>v. v / 299792.458))) else (\<lambda>m. m))
         [map (\<lambda>i. Fin (- sample_pvspin getLST (observer nlat wlong) (ras ! i) (decs ! i)
                            (jds ! i))) [0..<length ras],
          map (\<lambda>i. Fin (- sample_pvspin getLST (observer nlat wlong) (ras ! i) (decs ! i)
                            (jds ! i)
                        - sample_pvorbit_helio baryvel (ras ! i) (decs ! i) (jds ! i)))
            [0..<length ras],
          map (\<lambda>i. Fin (- sample_pvspin getLST (observer nlat wlong) (ras ! i) (decs ! i)
                            (jds ! i)
                        - sample_pvorbit_bary baryvel (ras ! i) (decs ! i) (jds ! i)))
            [0..<length ras],
          map (\<lambda>i. fl2 (-) (Fin (- sample_pvspin getLST (observer nlat wlong) (ras ! i)
                                     (decs ! i) (jds ! i)
                        - sample_pvorbit_bary baryvel (ras ! i) (decs ! i) (jds ! i)))
                      (sample_pvlsr vv (ras ! i) (decs ! i))) [0..<length ras]])"
proof -
  obtain vv where vv: "vvlsr premat =
      ([Call_precess (2 * pi * 18 / 24) (dtor * 30) 1900 2000], Inr vv)"
    using vvlsr_ok by blast
  obtain pe where ob: "obspos nlat wlong = (pe, Inr (observer nlat wlong))"
    using obspos_ok by blast
  have l: "length ras = length ras" "length decs = length ras" "length jds = length ras"
    using assms by simp_all
  show ?thesis
    by (rule exI [of _ vv]) (simp only: ugdoppler_vec [OF l vv ob] vv snd_conv simp_thms)
qed

theorem ugdoppler_combination_witness:
  "length [0, 30 :: real] = length [0, 6 :: real]
   \<and> length [2451545, 2451546 :: real] = length [0, 6 :: real]
   \<and> (\<exists>vv geo helio bary lsr. snd (vvlsr premat_identity) = Inr vv \<and>
        snd (ugdoppler baryvel_rest premat_identity getLST_zero (Vec [0, 6]) (Vec [0, 30])
              (Vec [2451545, 2451546]) None None False) = Inr [geo, helio, bary, lsr]
        \<and> geo = [Fin (- sample_pvspin getLST_zero (37.8732, 122.2573) 0 0 2451545),
                  Fin (- sample_pvspin getLST_zero (37.8732, 122.2573) 6 30 2451546)]
        \<and> lsr = [fl2 (-) (Fin (- sample_pvspin getLST_zero (37.8732, 122.2573) 0 0 2451545
                               - sample_pvorbit_bary baryvel_rest 0 0 2451545))
                    (sample_pvlsr vv 0 0),
                  fl2 (-) (Fin (- sample_pvspin getLST_zero (37.8732, 122.2573) 6 30 2451546
                               - sample_pvorbit_bary baryvel_rest 6 30 2451546))
                    (sample_pvlsr vv 6 30)])"
proof -
  have two: "[0..<2] = [0, 1]" by (simp add: numeral_2_eq_2)
  from ugdoppler_combination [of "[0, 30]" "[0, 6]" "[2451545, 2451546]" premat_identity
      baryvel_rest getLST_zero None None False]
  show ?thesis by (auto simp add: two observer_def)
qed

text \<open>
  C2. The solar-motion apex, right ascension 18 hours and declination 30 degrees in
  radians, goes through \<open>precess\<close> from 1900 to 2000 in radian mode; the velocity vector
  built from the precessed \<open>(r, d)\<close> is 20 times
  \<open>(cos d cos (\<pi> + r), cos d sin r, sin d)\<close>. Every call that returns has made exactly
  one call of \<open>precess\<close>, whatever the number of samples, and for a batch the LSR row is
  the barycentric row minus \<open>pvlsr\<close>, the projection of that one vector onto each
  sample's source direction: the sum of the products of the three components of the
  vector with \<open>cos dec cos ra\<close>, \<open>cos dec sin ra\<close> and \<open>sin dec\<close> of the sample.
\<close>

theorem lsr_apex_once:
  "\<exists>r d vv.
     precess premat (Scalar (2 * pi * 18 / 24)) (Scalar (dtor * 30)) 1900 2000 False True
       = Inr ([r], [d])
     \<and> vv = (fl1 ((*) 20) (fl2 (*) (fl1 cos d) (Fin (cos (pi + r)))),
             fl1 ((*) 20) (fl2 (*) (fl1 cos d) (Fin (sin r))),
             fl1 ((*) 20) (fl1 sin d))
     \<and> vvlsr premat = ([Call_precess (2 * pi * 18 / 24) (dtor * 30) 1900 2000], Inr vv)
     \<and> (snd (ugdoppler baryvel premat getLST ra dec julday nlat wlong light) = Inr vt
          \<longrightarrow> length (filter is_call_precess
                (fst (ugdoppler baryvel premat getLST ra dec julday nlat wlong light))) = 1)
     \<and> (length decs = length ras \<and> length jds = length ras
          \<longrightarrow> (\<exists>geo helio bary lsr.
                snd (ugdoppler baryvel premat getLST (Vec ras) (Vec decs) (Vec jds)
                       nlat wlong False) = Inr [geo, helio, bary, lsr]
                \<and> lsr = map (\<lambda>i. fl2 (-) (bary ! i) (projected_pvlsr vv (ras ! i) (decs ! i)))
                          [0..<length ras]))"
proof -
  obtain r d where p:
    "precess premat (Scalar (2 * pi * 18 / 24)) (Scalar (dtor * 30)) 1900 2000 False True
       = Inr ([r], [d])"
    using precess_apex_ex by blast
  define vv where "vv = (fl1 ((*) 20) (fl2 (*) (fl1 cos d) (Fin (cos (pi + r)))),
             fl1 ((*) 20) (fl2 (*) (fl1 cos d) (Fin (sin r))),
             fl1 ((*) 20) (fl1 sin d))"
  have v: "vvlsr premat = ([Call_precess (2 * pi * 18 / 24) (dtor * 30) 1900 2000], Inr vv)"
    unfolding vv_def using p by (rule vvlsr_of_precess)
  have once: "snd (ugdoppler baryvel premat getLST ra dec julday nlat wlong light) = Inr vt
          \<longrightarrow> length (filter is_call_precess
                (fst (ugdoppler baryvel premat getLST ra dec julday nlat wlong light))) = 1"
    by (rule impI) (rule precess_called_once)
  have proj: "length decs = length ras \<and> length jds = length ras
          \<longrightarrow> (\<exists>geo helio bary lsr.
                snd (ugdoppler baryvel premat getLST (Vec ras) (Vec decs) (Vec jds)
                       nlat wlong False) = Inr [geo, helio, bary, lsr]
                \<and> lsr = map (\<lambda>i. fl2 (-) (bary ! i) (projected_pvlsr vv (ras ! i) (decs ! i)))
                          [0..<length ras])"
  proof
    assume "length decs = length ras \<and> length jds = length ras"
    then have l: "length ras = length ras" "length decs = length ras"
        "length jds = length ras"
      by simp_all
    obtain pe where ob: "obspos nlat wlong = (pe, Inr (observer nlat wlong))"
      using obspos_ok by blast
    show "\<exists>geo helio bary lsr.
                snd (ugdoppler baryvel premat getLST (Vec ras) (Vec decs) (Vec jds)
                       nlat wlong False) = Inr [geo, helio, bary, lsr]
                \<and> lsr = map (\<lambda>i. fl2 (-) (bary ! i) (projected_pvlsr vv (ras ! i) (decs ! i)))
                          [0..<length ras]"
      unfolding ugdoppler_vec [OF l v ob]
      by (simp add: sample_pvlsr_def fdot3_written_out del: upt_Suc upt.simps)
  qed
  from p v once proj show ?thesis unfolding vv_def by blast
qed

theorem lsr_apex_once_witness:
  "length [0, 30 :: real] = length [0, 6 :: real]
   \<and> length [2451545, 2451546 :: real] = length [0, 6 :: real]
   \<and> length (filter is_call_precess
        (fst (ugdoppler baryvel_rest premat_identity getLST_zero (Vec [0, 6]) (Vec [0, 30])
               (Vec [2451545, 2451546]) None None False))) = 1
   \<and> (\<exists>geo helio bary lsr vv.
        snd (ugdoppler baryvel_rest premat_identity getLST_zero (Vec [0, 6]) (Vec [0, 30])
               (Vec [2451545, 2451546]) None None False) = Inr [geo, helio, bary, lsr]
        \<and> snd (vvlsr premat_identity) = Inr vv
        \<and> lsr = [fl2 (-) (bary ! 0) (projected_pvlsr vv 0 0),
                  fl2 (-) (bary ! 1) (projected_pvlsr vv 6 30)])"
proof -
  have two: "[0..<2] = [0, 1]" by (simp add: numeral_2_eq_2)
  obtain vv0 where v0: "vvlsr premat_identity =
      ([Call_precess (2 * pi * 18 / 24) (dtor * 30) 1900 2000], Inr vv0)"
    using vvlsr_ok by blast
  obtain pe where ob: "obspos None None = (pe, Inr (observer None None))"
    using obspos_ok by blast
  have l: "length [0, 6 :: real] = 2" "length [0, 30 :: real] = 2"
      "length [2451545, 2451546 :: real] = 2"
    by simp_all
  obtain vt where ok:
    "snd (ugdoppler baryvel_rest premat_identity getLST_zero (Vec [0, 6]) (Vec [0, 30])
               (Vec [2451545, 2451546]) None None False) = Inr vt"
    unfolding ugdoppler_vec [OF l v0 ob] by simp
  from lsr_apex_once [of premat_identity baryvel_rest getLST_zero "Vec [0, 6]" "Vec [0, 30]"
      "Vec [2451545, 2451546]" None None False vt "[0, 30]" "[0, 6]" "[2451545, 2451546]"]
  show ?thesis using ok by (auto simp add: two)
qed

text \<open>
  C3, as the code has it. There is no length check and no error of its own for a length
  mismatch. A declination vector whose length differs from that of the right ascensions
  and is not 1 makes the call fail with numpy's ValueError while the source direction
  cosines are filled in, before any collaborator is called. With right ascensions and
  declinations of equal length, a shorter Julian-day vector makes the orbital loop fail
  with IndexError when it runs past its end. Whenever a call returns, on any input, the
  matrix has all four rows, each of length \<open>nin\<close>: there is no partial result.
\<close>

theorem ugdoppler_length_mismatch:
  "(length decs \<noteq> length ras \<and> length decs \<noteq> 1
      \<longrightarrow> ugdoppler baryvel premat getLST (Vec ras) (Vec decs) julday nlat wlong light
           = ([], Inl ValueError))
   \<and> (length decs = length ras \<and> length jds < length ras
      \<longrightarrow> snd (ugdoppler baryvel premat getLST (Vec ras) (Vec decs) (Vec jds) nlat wlong light)
           = Inl IndexError)
   \<and> (snd (ugdoppler baryvel premat getLST ra dec julday nlat wlong light) = Inr vt
      \<longrightarrow> length vt = 4
          \<and> (\<forall>row \<in> set vt. length row = (case np_len ra of Inr n \<Rightarrow> n | Inl e \<Rightarrow> 1)))"
proof (intro conjI impI)
  assume "length decs \<noteq> length ras \<and> length decs \<noteq> 1"
  then show "ugdoppler baryvel premat getLST (Vec ras) (Vec decs) julday nlat wlong light
           = ([], Inl ValueError)"
    by (intro ugdoppler_mismatch_dec) simp_all
next
  assume "length decs = length ras \<and> length jds < length ras"
  then show "snd (ugdoppler baryvel premat getLST (Vec ras) (Vec decs) (Vec jds) nlat wlong
      light) = Inl IndexError"
    by (intro ugdoppler_short_julday) simp_all
next
  assume r: "snd (ugdoppler baryvel premat getLST ra dec julday nlat wlong light) = Inr vt"
  from ugdoppler_success [OF r] show "length vt = 4" by blast
  from ugdoppler_success [OF r]
  show "\<forall>row \<in> set vt. length row = (case np_len ra of Inr n \<Rightarrow> n | Inl e \<Rightarrow> 1)"
    by blast
qed

theorem ugdoppler_length_mismatch_witness:
  "length [0, 0, 0 :: real] \<noteq> length [0, 0 :: real] \<and> length [0, 0, 0 :: real] \<noteq> 1
   \<and> ugdoppler baryvel_rest premat_identity getLST_zero (Vec [0, 0]) (Vec [0, 0, 0])
        (Vec [0, 0]) None None False = ([], Inl ValueError)
   \<and> length [0 :: real] < length [0, 0 :: real]
   \<and> snd (ugdoppler baryvel_rest premat_identity getLST_zero (Vec [0, 0]) (Vec [0, 0])
        (Vec [0]) None None False) = Inl IndexError
   \<and> snd (ugdoppler baryvel_rest premat_identity getLST_zero (Vec [0, 0]) (Vec [0])
        (Vec [0, 0]) None None False)
       = Inr [[Fin 0, Fin 0], [Fin 0, Fin 0], [Fin 0, Fin 0], [Fin 0, Fin 0]]
   \<and> length [[Fin 0, Fin 0], [Fin 0, Fin 0], [Fin 0, Fin 0], [Fin 0, Fin 0]] = 4"
proof -
  have a: "ugdoppler baryvel_rest premat_identity getLST_zero (Vec [0, 0]) (Vec [0, 0, 0])
        (Vec [0, 0]) None None False = ([], Inl ValueError)"
    using ugdoppler_length_mismatch [of "[0, 0, 0]" "[0, 0]" baryvel_rest premat_identity
        getLST_zero "Vec [0, 0]" None None False]
    by simp
  have b: "snd (ugdoppler baryvel_rest premat_identity getLST_zero (Vec [0, 0]) (Vec [0, 0])
        (Vec [0]) None None False) = Inl IndexError"
    using ugdoppler_length_mismatch [of "[0, 0]" "[0, 0]" baryvel_rest premat_identity
        getLST_zero "Vec [0, 0]" None None False "[0]"]
    by simp
  have c: "snd (ugdoppler baryvel_rest premat_identity getLST_zero (Vec [0, 0]) (Vec [0])
        (Vec [0, 0]) None None False)
       = Inr [[Fin 0, Fin 0], [Fin 0, Fin 0], [Fin 0, Fin 0], [Fin 0, Fin 0]]"
    by (rule broadcast_dec_returns)
  have d: "length [[Fin 0, Fin 0], [Fin 0, Fin 0], [Fin 0, Fin 0], [Fin 0, Fin 0 :: fl]] = 4"
    using ugdoppler_length_mismatch [where baryvel = baryvel_rest
        and premat = premat_identity and getLST = getLST_zero and ra = "Vec [0, 0]"
        and dec = "Vec [0]" and julday = "Vec [0, 0]" and nlat = None and wlong = None
        and light = False
        and vt = "[[Fin 0, Fin 0], [Fin 0, Fin 0], [Fin 0, Fin 0], [Fin 0, Fin 0]]"] c
    by blast
  from a b c d show ?thesis by simp
qed

text \<open>
  C3, as the claim states it, fails: right ascensions and Julian days of length 2 with a
  declination vector of length 1 are inputs of unequal lengths, and the call returns the
  full 4x2 matrix, the single declination having been broadcast.
\<close>

theorem unequal_lengths_return:
  "snd (ugdoppler baryvel_rest premat_identity getLST_zero (Vec [0, 0]) (Vec [0]) (Vec [0, 0])
          None None False)
   = Inr [[Fin 0, Fin 0], [Fin 0, Fin 0], [Fin 0, Fin 0], [Fin 0, Fin 0]]"
proof -
  obtain vy vz where vv: "vvlsr premat_identity =
     ([Call_precess (2 * pi * 18 / 24) (dtor * 30) 1900 2000], Inr (Fin 0, Fin vy, Fin vz))"
    using vvlsr_identity by blast
  have two: "[0..<2] = [0, 1]" by (simp add: numeral_2_eq_2)
  show ?thesis
    by (simp add: ugdoppler_def Let_def xxsource_rows_def two vv obspos_value pvspin_def
        vtotal_rows_def baryvel_rest_def getLST_zero_def io_pure_def io_of_def
        column_def dot3_def fdot3_def)
qed

text \<open>
  C8. The resolved observer location and the sidereal time are computed into local
  names and dropped: the call returns \<open>vtotal\<close> alone. Nothing a caller sees tells the
  observer locations \<open>(10, 20)\<close> and \<open>(-10, 20)\<close> apart: the value returned and the events
  are the same for both, on every input, while the locations resolved differ.
\<close>

theorem observer_not_returned: "ugdoppler baryvel premat getLST ra dec julday (Some 10) (Some 20) light
       = ugdoppler baryvel premat getLST ra dec julday (Some (- 10)) (Some 20) light
     \<and> obspos (Some 10) (Some 20) \<noteq> obspos (Some (- 10)) (Some 20)"
  by (simp add: ugdoppler_def Let_def obspos_value pvspin_mirror)

text \<open>
  C9, as the code has it. What a call prints depends on the observer arguments alone:
  a call that returns has printed the one-line notice exactly when \<open>nlat\<close> and \<open>wlong\<close>
  are not both truthy, and nothing otherwise.
\<close>

theorem ugdoppler_prints:
  assumes "snd (ugdoppler baryvel premat getLST ra dec julday nlat wlong light) = Inr vt"
  shows "filter is_print (fst (ugdoppler baryvel premat getLST ra dec julday nlat wlong light))
     = (if truthy nlat \<and> truthy wlong then []
        else [Print ''I am defaulting to Campbell Hall coordinates''])"
proof -
  from ugdoppler_success [OF assms] obtain js where
    "fst (ugdoppler baryvel premat getLST ra dec julday nlat wlong light) =
          map (\<lambda>j. Call_baryvel j 2000) js @ [Call_precess (2 * pi * 18 / 24) (dtor * 30) 1900 2000]
            @ fst (obspos nlat wlong)
            @ [Call_getLST julday (- snd (observer nlat wlong)), Breakpoint]"
    by blast
  then show ?thesis by (simp add: filter_print_baryvel obspos_events)
qed

theorem ugdoppler_prints_witness:
  "(\<exists>vt. snd (ugdoppler baryvel_rest premat_identity getLST_zero (Vec [0]) (Vec [0])
              (Vec [2451545]) (Some 37) (Some 122) False) = Inr vt)
   \<and> filter is_print (fst (ugdoppler baryvel_rest premat_identity getLST_zero (Vec [0])
         (Vec [0]) (Vec [2451545]) (Some 37) (Some 122) False)) = []
   \<and> filter is_print (fst (ugdoppler baryvel_rest premat_identity getLST_zero (Vec [0])
         (Vec [0]) (Vec [2451545]) None None False))
       = [Print ''I am defaulting to Campbell Hall coordinates'']"
proof -
  obtain vv where vv: "vvlsr premat_identity =
     ([Call_precess (2 * pi * 18 / 24) (dtor * 30) 1900 2000], Inr vv)"
    using vvlsr_ok by blast
  obtain pe where ob: "obspos (Some 37) (Some 122) = (pe, Inr (observer (Some 37) (Some 122)))"
    using obspos_ok by blast
  obtain pe' where ob': "obspos None None = (pe', Inr (observer None None))"
    using obspos_ok by blast
  have l: "length [0::real] = 1" "length [0::real] = 1" "length [2451545::real] = 1"
    by simp_all
  obtain vt where a:
    "snd (ugdoppler baryvel_rest premat_identity getLST_zero (Vec [0]) (Vec [0])
              (Vec [2451545]) (Some 37) (Some 122) False) = Inr vt"
    unfolding ugdoppler_vec [OF l vv ob] by simp
  obtain vt' where b:
    "snd (ugdoppler baryvel_rest premat_identity getLST_zero (Vec [0]) (Vec [0])
              (Vec [2451545]) None None False) = Inr vt'"
    unfolding ugdoppler_vec [OF l vv ob'] by simp
  from ugdoppler_prints [OF a] ugdoppler_prints [OF b] a show ?thesis
    by (auto simp add: truthy_def)
qed

text \<open>
  C9, as the claim states it, fails: a call without observer arguments prints the
  notice and stops in the debugger before it returns.
\<close>

theorem ugdoppler_prints_and_breaks:
  "Print ''I am defaulting to Campbell Hall coordinates''
     \<in> set (fst (ugdoppler baryvel_rest premat_identity getLST_zero (Vec [0]) (Vec [0])
          (Vec [2451545]) None None False))
   \<and> Breakpoint
     \<in> set (fst (ugdoppler baryvel_rest premat_identity getLST_zero (Vec [0]) (Vec [0])
          (Vec [2451545]) None None False))"
proof -
  obtain vv where vv: "vvlsr premat_identity =
     ([Call_precess (2 * pi * 18 / 24) (dtor * 30) 1900 2000], Inr vv)"
    using vvlsr_ok by blast
  have ob: "obspos None None =
     ([Print ''I am defaulting to Campbell Hall coordinates''], Inr (37.8732, 122.2573))"
    by (simp add: obspos_value)
  have l: "length [0::real] = 1" "length [0::real] = 1" "length [2451545::real] = 1" by simp_all
  show ?thesis unfolding ugdoppler_vec [OF l vv ob] by simp
qed

text \<open>
  C10. The supplied pair \<open>(nlat, wlong)\<close> is used exactly when both are truthy. If
  either is missing or zero, the observatory at \<open>(37.8732, 122.2573)\<close> is used, the call
  raising nothing on that account and printing its notice, and the whole call behaves
  as one without observer arguments. A coordinate equal to 0 is not truthy.
\<close>

theorem observer_truthiness:
  "(truthy nlat \<and> truthy wlong
      \<longrightarrow> (\<exists>la lo. nlat = Some la \<and> wlong = Some lo
            \<and> obspos nlat wlong = ([], Inr (la, lo))))
   \<and> (\<not> (truthy nlat \<and> truthy wlong)
      \<longrightarrow> obspos nlat wlong = ([Print ''I am defaulting to Campbell Hall coordinates''],
                                Inr (37.8732, 122.2573))
          \<and> ugdoppler baryvel premat getLST ra dec julday nlat wlong light
            = ugdoppler baryvel premat getLST ra dec julday None None light)
   \<and> (nlat = Some 0 \<or> wlong = Some 0 \<longrightarrow> \<not> (truthy nlat \<and> truthy wlong))"
proof (intro conjI impI)
  assume "truthy nlat \<and> truthy wlong"
  then show "\<exists>la lo. nlat = Some la \<and> wlong = Some lo \<and> obspos nlat wlong = ([], Inr (la, lo))"
    by (rule obspos_supplied)
next
  assume n: "\<not> (truthy nlat \<and> truthy wlong)"
  then show d: "obspos nlat wlong = ([Print ''I am defaulting to Campbell Hall coordinates''],
                                Inr (37.8732, 122.2573))"
    by (rule obspos_default)
  have "obspos None None = ([Print ''I am defaulting to Campbell Hall coordinates''],
                                Inr (37.8732, 122.2573))"
    by (rule obspos_default) (simp add: truthy_def)
  with d have "obspos nlat wlong = obspos None None" by simp
  then show "ugdoppler baryvel premat getLST ra dec julday nlat wlong light
            = ugdoppler baryvel premat getLST ra dec julday None None light"
    by (rule ugdoppler_obspos_cong)
next
  assume "nlat = Some 0 \<or> wlong = Some 0"
  then show "\<not> (truthy nlat \<and> truthy wlong)" by (auto simp add: truthy_def)
qed

theorem observer_truthiness_witness:
  "truthy (Some 45) \<and> truthy (Some 10)
   \<and> obspos (Some 45) (Some 10) = ([], Inr (45, 10))
   \<and> \<not> (truthy (Some 0) \<and> truthy (Some 10))
   \<and> obspos (Some 0) (Some 10) = ([Print ''I am defaulting to Campbell Hall coordinates''],
                                Inr (37.8732, 122.2573))
   \<and> ugdoppler baryvel_rest premat_identity getLST_zero (Vec [0]) (Vec [0]) (Vec [2451545])
        (Some 0) (Some 10) False
     = ugdoppler baryvel_rest premat_identity getLST_zero (Vec [0]) (Vec [0]) (Vec [2451545])
        None None False"
  using observer_truthiness [of "Some 45" "Some 10"]
    observer_truthiness [of "Some 0" "Some 10" baryvel_rest premat_identity getLST_zero
      "Vec [0]" "Vec [0]" "Vec [2451545]" False]
  by (simp add: truthy_def)

end
